theory Spec2Isabelle
  imports Complex_Main
begin

section \<open>Text: Python strings as lists of code points\<close>

text \<open>
  A Python \<open>str\<close> is a sequence of Unicode code points. The normalizer looks at code
  points outside ASCII (it decomposes them, upper-cases them, asks the regular-expression
  engine whether they are word characters, and only then drops them), so the model keeps
  them: a string is a list of code points, a code point is a natural number.
\<close>

type_synonym codepoint = nat
type_synonym ustring = "codepoint list"

definition ustr :: "string \<Rightarrow> ustring" where
  "ustr s = map of_char s"

text \<open>
  What \<open>unicodedata\<close>, \<open>str.upper\<close> and \<open>re\<close> know about the code points from 128
  on comes from the Unicode character database, which is not part of the repository: a
  parameter. For the 128 ASCII code points the facts are written out below.
\<close>

record ucd =
  ucd_nfkd :: "codepoint \<Rightarrow> ustring"
  ucd_combining :: "codepoint \<Rightarrow> bool"
  ucd_upper :: "codepoint \<Rightarrow> ustring"
  ucd_alnum :: "codepoint \<Rightarrow> bool"
  ucd_space :: "codepoint \<Rightarrow> bool"

definition is_ascii :: "codepoint \<Rightarrow> bool" where
  "is_ascii c \<longleftrightarrow> c < 128"

definition ascii_lower :: "codepoint \<Rightarrow> bool" where
  "ascii_lower c \<longleftrightarrow> 97 \<le> c \<and> c \<le> 122"

text \<open>\<open>unicodedata.normalize("NFKD", s)\<close> followed by dropping the combining marks.
  The canonical reordering that NFKD performs only permutes combining marks, all of which
  are dropped, so the result is the concatenated decompositions without the marks.\<close>

definition nfkd_cp :: "ucd \<Rightarrow> codepoint \<Rightarrow> ustring" where
  "nfkd_cp U c = (if is_ascii c then [c] else ucd_nfkd U c)"

definition combining :: "ucd \<Rightarrow> codepoint \<Rightarrow> bool" where
  "combining U c \<longleftrightarrow> \<not> is_ascii c \<and> ucd_combining U c"

definition strip_accents :: "ucd \<Rightarrow> ustring \<Rightarrow> ustring" where
  "strip_accents U s = filter (\<lambda>c. \<not> combining U c) (concat (map (nfkd_cp U) s))"

text \<open>\<open>s.upper()\<close>: one code point may become several.\<close>

definition upper_cp :: "ucd \<Rightarrow> codepoint \<Rightarrow> ustring" where
  "upper_cp U c = (if is_ascii c then [if ascii_lower c then c - 32 else c] else ucd_upper U c)"

definition py_upper :: "ucd \<Rightarrow> ustring \<Rightarrow> ustring" where
  "py_upper U s = concat (map (upper_cp U) s)"

text \<open>The classes \<open>\w\<close> and \<open>\s\<close> of \<open>re\<close> on a \<open>str\<close> pattern. In ASCII, \<open>\w\<close> is
  \<open>[A-Za-z0-9_]\<close> and \<open>\s\<close> is the code points 9 to 13, 28 to 31 and 32.\<close>

definition is_word :: "ucd \<Rightarrow> codepoint \<Rightarrow> bool" where
  "is_word U c \<longleftrightarrow>
     (if is_ascii c
      then (48 \<le> c \<and> c \<le> 57) \<or> (65 \<le> c \<and> c \<le> 90) \<or> c = 95 \<or> (97 \<le> c \<and> c \<le> 122)
      else ucd_alnum U c)"

definition is_space :: "ucd \<Rightarrow> codepoint \<Rightarrow> bool" where
  "is_space U c \<longleftrightarrow>
     (if is_ascii c then (9 \<le> c \<and> c \<le> 13) \<or> (28 \<le> c \<and> c \<le> 31) \<or> c = 32
      else ucd_space U c)"

subsection \<open>The regular-expression substitutions of \<open>clean_name\<close>\<close>

text \<open>\<open>re.sub(r"\([^)]*\)", "", s)\<close>: at an opening parenthesis (40) with a closing one
  (41) somewhere after it, everything up to the first closing one is removed and the scan
  goes on behind it; an opening parenthesis that is never closed stays.\<close>

function strip_parens :: "ustring \<Rightarrow> ustring" where
  "strip_parens [] = []"
| "strip_parens (c # cs) =
     (if c = 40 \<and> 41 \<in> set cs
      then strip_parens (tl (dropWhile (\<lambda>x. x \<noteq> 41) cs))
      else c # strip_parens cs)"
  by pat_completeness auto
termination
proof (relation "measure length")
  fix c :: codepoint and cs :: ustring
  have "length (dropWhile (\<lambda>x. x \<noteq> 41) cs) \<le> length cs"
    by (rule length_dropWhile_le)
  then show "(tl (dropWhile (\<lambda>x. x \<noteq> 41) cs), c # cs) \<in> measure length"
    by simp
qed simp_all

text \<open>\<open>\b\<close> after a match: the next code point is no word character, or the string
  ends.\<close>

definition at_word_end :: "ucd \<Rightarrow> ustring \<Rightarrow> bool" where
  "at_word_end U cs \<longleftrightarrow> (case cs of [] \<Rightarrow> True | c # _ \<Rightarrow> \<not> is_word U c)"

text \<open>\<open>re.sub(r"\b'S\b", "", s)\<close>. The flag says whether the code point before the
  current position is a word character: the apostrophe (39) is none, so the first \<open>\b\<close>
  asks for a word character before it; the second asks for no word character after the
  \<open>S\<close> (83). After a match the code point before the position is that \<open>S\<close>.\<close>

fun sub_apos_s :: "ucd \<Rightarrow> bool \<Rightarrow> ustring \<Rightarrow> ustring" where
  "sub_apos_s U pw [] = []"
| "sub_apos_s U pw [c] = [c]"
| "sub_apos_s U pw (a # b # cs) =
     (if pw \<and> a = 39 \<and> b = 83 \<and> at_word_end U cs
      then sub_apos_s U True cs
      else a # sub_apos_s U (is_word U a) (b # cs))"

text \<open>\<open>re.sub(r"\bS\b", "", s)\<close>: an \<open>S\<close> with no word character on either side.\<close>

fun sub_bare_s :: "ucd \<Rightarrow> bool \<Rightarrow> ustring \<Rightarrow> ustring" where
  "sub_bare_s U pw [] = []"
| "sub_bare_s U pw (c # cs) =
     (if \<not> pw \<and> c = 83 \<and> at_word_end U cs
      then sub_bare_s U True cs
      else c # sub_bare_s U (is_word U c) cs)"

text \<open>\<open>s.encode("ascii", errors="ignore").decode()\<close>\<close>

definition ascii_only :: "ustring \<Rightarrow> ustring" where
  "ascii_only s = filter is_ascii s"

text \<open>\<open>re.sub(r"[^\w\s]", " ", s)\<close>\<close>

definition punct_to_space :: "ucd \<Rightarrow> ustring \<Rightarrow> ustring" where
  "punct_to_space U s = map (\<lambda>c. if is_word U c \<or> is_space U c then c else 32) s"

text \<open>\<open>re.sub(r"\s+", " ", s)\<close>. The flag says whether the scan is inside a run of
  whitespace, whose single space has been written already.\<close>

fun collapse_ws :: "ucd \<Rightarrow> bool \<Rightarrow> ustring \<Rightarrow> ustring" where
  "collapse_ws U r [] = []"
| "collapse_ws U r (c # cs) =
     (if is_space U c then (if r then collapse_ws U True cs else 32 # collapse_ws U True cs)
      else c # collapse_ws U False cs)"

text \<open>\<open>s.strip()\<close>\<close>

fun rstrip :: "ucd \<Rightarrow> ustring \<Rightarrow> ustring" where
  "rstrip U [] = []"
| "rstrip U (c # cs) = (if is_space U c \<and> rstrip U cs = [] then [] else c # rstrip U cs)"

definition py_strip :: "ucd \<Rightarrow> ustring \<Rightarrow> ustring" where
  "py_strip U s = rstrip U (dropWhile (is_space U) s)"

subsection \<open>\<open>clean_name\<close>\<close>

text \<open>Steps 1 to 3, which the two versions of \<open>clean_name\<close> share: decompose and drop
  the accents, upper-case, remove the parenthesised parts.\<close>

definition fold_text :: "ucd \<Rightarrow> ustring \<Rightarrow> ustring" where
  "fold_text U s = strip_parens (py_upper U (strip_accents U s))"

text \<open>What both versions do after their step 4: ASCII only, punctuation to spaces, runs
  of whitespace to one space, trim.\<close>

definition tidy :: "ucd \<Rightarrow> ustring \<Rightarrow> ustring" where
  "tidy U s = py_strip U (collapse_ws U False (punct_to_space U (ascii_only s)))"

text \<open>\<open>clean_name\<close> of \<open>2.match_func/match_by_name.py\<close>, the Text Normalizer of the Name
  Matcher. The argument is \<open>None\<close> when the value is not a \<open>str\<close>.\<close>

definition clean_name :: "ucd \<Rightarrow> ustring option \<Rightarrow> ustring" where
  "clean_name U x =
     (case x of
        None \<Rightarrow> []
      | Some s \<Rightarrow> tidy U (sub_bare_s U False (sub_apos_s U False (fold_text U s))))"


subsection \<open>\<open>extract_prinmary_str\<close>\<close>

text \<open>\<open>name.split()\<close>: the maximal runs of code points that are no whitespace. The
  second argument is the token being read.\<close>

fun split_ws :: "ucd \<Rightarrow> ustring \<Rightarrow> ustring \<Rightarrow> ustring list" where
  "split_ws U cur [] = (if cur = [] then [] else [cur])"
| "split_ws U cur (c # cs) =
     (if is_space U c then (if cur = [] then split_ws U [] cs else cur # split_ws U [] cs)
      else split_ws U (cur @ [c]) cs)"

definition py_split :: "ucd \<Rightarrow> ustring \<Rightarrow> ustring list" where
  "py_split U s = split_ws U [] s"

text \<open>\<open>" ".join(ts)\<close>\<close>

fun join_sp :: "ustring list \<Rightarrow> ustring" where
  "join_sp [] = []"
| "join_sp [t] = t"
| "join_sp (t # ts) = t @ 32 # join_sp ts"

text \<open>\<open>NON_PRIMARY_TOKENS\<close> is used by the source and defined nowhere in it: a
  parameter.\<close>

definition extract_prinmary_str :: "ucd \<Rightarrow> ustring set \<Rightarrow> ustring \<Rightarrow> ustring" where
  "extract_prinmary_str U non_primary name =
     (let tokens = py_split U name;
          core = filter (\<lambda>t. t \<notin> non_primary) tokens
      in if length core = 1 \<and> length (core ! 0) < 3 then name
         else if core \<noteq> [] then join_sp core
         else name)"

text \<open>The contract of the spec for \<open>extract_primary\<close>, in the spec's words, for comparison
  with the code: the text is split on whitespace, the tokens of the exclusion set are
  removed; exactly one token left, shorter than 3 characters: the input; nothing left: the
  input; otherwise the tokens left, joined by single spaces.\<close>

function words_of :: "ucd \<Rightarrow> ustring \<Rightarrow> ustring list" where
  "words_of U s =
     (case dropWhile (is_space U) s of
        [] \<Rightarrow> []
      | c # cs \<Rightarrow> takeWhile (\<lambda>x. \<not> is_space U x) (c # cs)
                 # words_of U (dropWhile (\<lambda>x. \<not> is_space U x) cs))"
  by pat_completeness auto
termination
proof (relation "measure (\<lambda>(U, s). length s)")
  fix U :: ucd and s :: ustring and c :: codepoint and cs :: ustring
  assume "dropWhile (is_space U) s = c # cs"
  then have "length (c # cs) \<le> length s"
    by (metis length_dropWhile_le)
  moreover have "length (dropWhile (\<lambda>x. \<not> is_space U x) cs) \<le> length cs"
    by (rule length_dropWhile_le)
  ultimately show "((U, dropWhile (\<lambda>x. \<not> is_space U x) cs), (U, s))
      \<in> measure (\<lambda>(U, s). length s)"
    by simp
qed simp

definition joined_by_spaces :: "ustring list \<Rightarrow> ustring" where
  "joined_by_spaces ts =
     (case ts of [] \<Rightarrow> [] | t # rest \<Rightarrow> t @ concat (map (\<lambda>u. 32 # u) rest))"

definition extract_primary_spec :: "ucd \<Rightarrow> ustring set \<Rightarrow> ustring \<Rightarrow> ustring" where
  "extract_primary_spec U excluded text =
     (case filter (\<lambda>t. t \<notin> excluded) (words_of U text) of
        [] \<Rightarrow> text
      | [t] \<Rightarrow> if length t < 3 then text else joined_by_spaces [t]
      | ts \<Rightarrow> joined_by_spaces ts)"

subsection \<open>Normal forms\<close>



text \<open>A database for the examples: the entry of U+00D8, LATIN CAPITAL LETTER O WITH STROKE
  (no decomposition, no combining class, its own upper case, alphanumeric). No other code
  point from 128 on occurs in the examples.\<close>

definition ucd_sample :: ucd where
  "ucd_sample =
     \<lparr>ucd_nfkd = (\<lambda>c. [c]), ucd_combining = (\<lambda>c. False), ucd_upper = (\<lambda>c. [c]),
      ucd_alnum = (\<lambda>c. c = 216), ucd_space = (\<lambda>c. False)\<rparr>"

section \<open>The Name Matcher\<close>

datatype py_error = TypeError | IndexError | KeyError | ValueError

text \<open>The four scorers of \<open>rapidfuzz.fuzz\<close>, a library: parameters. Their scores are
  floats between 0 and 100, read as reals.\<close>

record fuzz =
  WRatio :: "ustring \<Rightarrow> ustring \<Rightarrow> real"
  partial_ratio :: "ustring \<Rightarrow> ustring \<Rightarrow> real"
  token_sort_ratio :: "ustring \<Rightarrow> ustring \<Rightarrow> real"
  token_set_ratio :: "ustring \<Rightarrow> ustring \<Rightarrow> real"

definition fuzz_in_range :: "fuzz \<Rightarrow> bool" where
  "fuzz_in_range F \<longleftrightarrow>
     (\<forall>a b. 0 \<le> WRatio F a b \<and> WRatio F a b \<le> 100
          \<and> 0 \<le> partial_ratio F a b \<and> partial_ratio F a b \<le> 100
          \<and> 0 \<le> token_sort_ratio F a b \<and> token_sort_ratio F a b \<le> 100
          \<and> 0 \<le> token_set_ratio F a b \<and> token_set_ratio F a b \<le> 100)"

text \<open>A comparison record, with the columns \<open>comp_id\<close>, \<open>comp_name_col\<close> and
  \<open>comp_id_col\<close> that the matcher reads, and a reference row, with its name and the two
  lists of the spatial search. A name or category that is no \<open>str\<close> is \<open>None\<close>.\<close>

record 'id poi =
  poi_id :: 'id
  poi_name :: "ustring option"
  poi_cat :: "ustring option"

record 'id ref_row =
  ref_name :: "ustring option"
  cand_ids :: "'id list"
  cand_dist_m :: "real list"

text \<open>The five columns the matcher adds; \<open>None\<close> is \<open>pd.NA\<close>.\<close>

record 'id match_fields =
  matched_id :: "'id option"
  name_score :: "real option"
  location_distance :: "real option"
  matched_name :: "ustring option"
  matched_cat_main :: "ustring option"

text \<open>\<open>Series.to_dict()\<close>: of two rows with one id the later one stays.\<close>

definition to_dict :: "('k \<times> 'v) list \<Rightarrow> ('k \<rightharpoonup> 'v)" where
  "to_dict kvs = map_of (rev kvs)"

definition id_to_name_clean :: "ucd \<Rightarrow> ustring set \<Rightarrow> 'id poi list \<Rightarrow> ('id \<rightharpoonup> ustring)" where
  "id_to_name_clean U non_primary compared =
     to_dict (map (\<lambda>p. (poi_id p, extract_prinmary_str U non_primary (clean_name U (poi_name p))))
                compared)"

definition id_to_name_raw :: "'id poi list \<Rightarrow> ('id \<rightharpoonup> ustring option)" where
  "id_to_name_raw compared = to_dict (map (\<lambda>p. (poi_id p, poi_name p)) compared)"

definition id_to_cat :: "'id poi list \<Rightarrow> ('id \<rightharpoonup> ustring option)" where
  "id_to_cat compared = to_dict (map (\<lambda>p. (poi_id p, poi_cat p)) compared)"

text \<open>\<open>d.get(k)\<close> on a dictionary whose values may be missing themselves.\<close>

definition dict_get :: "('k \<rightharpoonup> 'v option) \<Rightarrow> 'k \<Rightarrow> 'v option" where
  "dict_get d k = (case d k of None \<Rightarrow> None | Some v \<Rightarrow> v)"

text \<open>\<open>process.extract(query, choices, scorer=fuzz.WRatio, limit=5)\<close> of rapidfuzz:
  every choice is scored, the choices are put in the order of decreasing score, choices of
  equal score staying in the order of the list, and the first \<open>limit\<close> of them are
  returned, each as (choice, score, index).\<close>

definition process_extract ::
  "fuzz \<Rightarrow> ustring \<Rightarrow> ustring list \<Rightarrow> nat \<Rightarrow> (ustring \<times> real \<times> nat) list" where
  "process_extract F query choices limit =
     take limit
       (sort_key (\<lambda>(name, wr, pos). - wr)
          (map (\<lambda>(pos, name). (name, WRatio F query name, pos)) (enumerate 0 choices)))"

text \<open>\<open>max(wr, pr, ts, tset)\<close> for one entry of the shortlist.\<close>

definition combined :: "fuzz \<Rightarrow> ustring \<Rightarrow> ustring \<times> real \<times> nat \<Rightarrow> real" where
  "combined F query e =
     (case e of (name, wr, pos) \<Rightarrow>
        max (max (max wr (partial_ratio F query name)) (token_sort_ratio F query name))
            (token_set_ratio F query name))"

text \<open>The combined score of a candidate name: the maximum of the four scores.\<close>

definition combined_score :: "fuzz \<Rightarrow> ustring \<Rightarrow> ustring \<Rightarrow> real" where
  "combined_score F query name = combined F query (name, WRatio F query name, 0)"

text \<open>The loop over \<open>top_matches\<close>, with \<open>best_score\<close> and \<open>best_pos\<close> as its state.\<close>

fun best_of ::
  "fuzz \<Rightarrow> ustring \<Rightarrow> (ustring \<times> real \<times> nat) list \<Rightarrow> real \<times> nat option \<Rightarrow> real \<times> nat option" where
  "best_of F query [] best = best"
| "best_of F query (e # es) (best_score, best_pos) =
     (if combined F query e > best_score
      then best_of F query es (combined F query e, Some (snd (snd e)))
      else best_of F query es (best_score, best_pos))"

definition unmatched :: "real option \<Rightarrow> 'id match_fields" where
  "unmatched sc =
     \<lparr>matched_id = None, name_score = sc, location_distance = None,
      matched_name = None, matched_cat_main = None\<rparr>"

text \<open>The query of a row and the names of its candidates:
  \<open>extract_prinmary_str(clean_name(row.get(re_name_col)))\<close> and
  \<open>[id_to_name_clean.get(cid, "") for cid in row["cand_ids"]]\<close>.\<close>

definition row_query :: "ucd \<Rightarrow> ustring set \<Rightarrow> 'id ref_row \<Rightarrow> ustring" where
  "row_query U non_primary row = extract_prinmary_str U non_primary (clean_name U (ref_name row))"

definition cand_names :: "ucd \<Rightarrow> ustring set \<Rightarrow> 'id poi list \<Rightarrow> 'id ref_row \<Rightarrow> ustring list" where
  "cand_names U non_primary compared row =
     map (\<lambda>cid. case id_to_name_clean U non_primary compared cid of None \<Rightarrow> [] | Some n \<Rightarrow> n)
       (cand_ids row)"

text \<open>The body of the loop over the reference rows. The query is a \<open>str\<close> whatever the
  name was (\<open>clean_name\<close> gives the empty string for a value that is none), so of the
  test \<open>not isinstance(query, str) or not row["cand_ids"]\<close> only the second half can
  hold. Indexing a list with \<open>None\<close> raises \<open>TypeError\<close>, behind its end \<open>IndexError\<close>.\<close>

definition match_row ::
  "ucd \<Rightarrow> ustring set \<Rightarrow> fuzz \<Rightarrow> 'id poi list \<Rightarrow> real \<Rightarrow> 'id ref_row
     \<Rightarrow> py_error + 'id match_fields" where
  "match_row U non_primary F compared threshold row =
     (let query = row_query U non_primary row in
      if cand_ids row = [] then Inr (unmatched None)
      else
        let top_matches =
              process_extract F query (cand_names U non_primary compared row) 5;
            (best_score, best_pos) = best_of F query top_matches (- 1, None)
        in if best_score \<ge> threshold then
             (case best_pos of
                None \<Rightarrow> Inl TypeError
              | Some pos \<Rightarrow>
                  if pos < length (cand_ids row) \<and> pos < length (cand_dist_m row)
                  then Inr \<lparr>matched_id = Some (cand_ids row ! pos),
                            name_score = Some best_score,
                            location_distance = Some (cand_dist_m row ! pos),
                            matched_name = dict_get (id_to_name_raw compared) (cand_ids row ! pos),
                            matched_cat_main = dict_get (id_to_cat compared) (cand_ids row ! pos)\<rparr>
                  else Inl IndexError)
           else Inr (unmatched (Some best_score)))"

text \<open>The shortlist of a row: its \<open>top_matches\<close>.\<close>

definition shortlist ::
  "ucd \<Rightarrow> ustring set \<Rightarrow> fuzz \<Rightarrow> 'id poi list \<Rightarrow> 'id ref_row \<Rightarrow> (ustring \<times> real \<times> nat) list" where
  "shortlist U non_primary F compared row =
     process_extract F (row_query U non_primary row) (cand_names U non_primary compared row) 5"

text \<open>The rows in their order; the first error ends the run.\<close>

fun match_rows ::
  "ucd \<Rightarrow> ustring set \<Rightarrow> fuzz \<Rightarrow> 'id poi list \<Rightarrow> real \<Rightarrow> 'id ref_row list
     \<Rightarrow> py_error + 'id match_fields list" where
  "match_rows U non_primary F compared threshold [] = Inr []"
| "match_rows U non_primary F compared threshold (row # rows) =
     (case match_row U non_primary F compared threshold row of
        Inl e \<Rightarrow> Inl e
      | Inr m \<Rightarrow>
          (case match_rows U non_primary F compared threshold rows of
             Inl e \<Rightarrow> Inl e
           | Inr ms \<Rightarrow> Inr (m # ms)))"

text \<open>\<open>match_by_name\<close>: a copy of the reference rows, each with its five new fields.\<close>

definition match_by_name ::
  "ucd \<Rightarrow> ustring set \<Rightarrow> fuzz \<Rightarrow> 'id ref_row list \<Rightarrow> 'id poi list \<Rightarrow> real
     \<Rightarrow> py_error + ('id ref_row \<times> 'id match_fields) list" where
  "match_by_name U non_primary F reference compared threshold =
     (case match_rows U non_primary F compared threshold reference of
        Inl e \<Rightarrow> Inl e
      | Inr ms \<Rightarrow> Inr (zip reference ms))"

text \<open>A table of scores for the strings of the examples, by the formulas of the library's
  documentation: the ratio of two strings is 200 times the length of their longest common
  subsequence over the sum of their lengths; the partial ratio compares the shorter string
  with the pieces of the longer one and is 100 for a substring; the weighted ratio of two
  strings of which one is at least 1.5 times as long as the other is 0.9 times the partial
  ratio. Every other pair of strings has the score 0 in the table; the library gives 0 for
  an empty query and a name that is not empty.\<close>

definition sample_scores :: "ustring \<Rightarrow> real \<times> real \<times> real \<times> real" where
  "sample_scores n =
     (if n = ustr ''STARBUCKS COFFEE COMPANY RESERVE'' then (90, 100, 200 / 3, 100)
      else if n = ustr ''STARBUCKS COFFEW'' then (375 / 4, 3000 / 31, 375 / 4, 375 / 4)
      else if n \<in> {ustr ''STARBUCK COFFEE'', ustr ''STARBUCKS COFEE'',
                    ustr ''STARBUKS COFFEE'', ustr ''STABUCKS COFFEE''}
        then (3000 / 31, 280 / 3, 3000 / 31, 3000 / 31)
      else (0, 0, 0, 0))"

definition fuzz_sample :: fuzz where
  "fuzz_sample =
     \<lparr>WRatio = (\<lambda>q n. if q = ustr ''STARBUCKS COFFEE'' then fst (sample_scores n) else 0),
      partial_ratio =
        (\<lambda>q n. if q = ustr ''STARBUCKS COFFEE'' then fst (snd (sample_scores n)) else 0),
      token_sort_ratio =
        (\<lambda>q n. if q = ustr ''STARBUCKS COFFEE'' then fst (snd (snd (sample_scores n))) else 0),
      token_set_ratio =
        (\<lambda>q n. if q = ustr ''STARBUCKS COFFEE'' then snd (snd (snd (sample_scores n))) else 0)\<rparr>"

definition sample_pois :: "nat poi list" where
  "sample_pois =
     [\<lparr>poi_id = 1, poi_name = Some (ustr ''Starbucks Coffee Company Reserve''),
        poi_cat = Some (ustr ''cafe'')\<rparr>,
      \<lparr>poi_id = 2, poi_name = Some (ustr ''Starbucks Coffew''), poi_cat = Some (ustr ''cafe'')\<rparr>,
      \<lparr>poi_id = 3, poi_name = Some (ustr ''Starbuck Coffee''), poi_cat = Some (ustr ''cafe'')\<rparr>,
      \<lparr>poi_id = 4, poi_name = Some (ustr ''Starbucks Cofee''), poi_cat = None\<rparr>,
      \<lparr>poi_id = 5, poi_name = Some (ustr ''Starbuks Coffee''), poi_cat = Some (ustr ''cafe'')\<rparr>,
      \<lparr>poi_id = 6, poi_name = Some (ustr ''Stabucks Coffee''), poi_cat = Some (ustr ''cafe'')\<rparr>,
      \<lparr>poi_id = 7, poi_name = None, poi_cat = None\<rparr>]"

definition sample_row :: "nat ref_row" where
  "sample_row =
     \<lparr>ref_name = Some (ustr ''Starbucks Coffee''), cand_ids = [1, 2, 3, 4, 5, 6],
      cand_dist_m = [10, 20, 30, 40, 50, 60]\<rparr>"

section \<open>The Spatial Candidate Finder\<close>

text \<open>\<open>cKDTree(cmp_xy).query(ref_xy, k=k_eff)\<close> of scipy, with the reshaping of its two
  arrays when \<open>k_eff\<close> is 1: a parameter. It gives, for every reference point, a row of
  distances and a row of indices into the comparison points (\<open>dist\<close> and \<open>idx\<close> in the
  source, \<open>dists\<close> and \<open>idxs\<close> here).\<close>

type_synonym 'p kd_query =
  "'p list \<Rightarrow> 'p list \<Rightarrow> int \<Rightarrow> py_error + (real list list \<times> nat list list)"

text \<open>What the library promises for \<open>k\<close> neighbours among \<open>n_cmp\<close> points, \<open>k\<close> at most
  \<open>n_cmp\<close>: one row for each reference point, \<open>k\<close> entries in each, the distances of a
  row ascending, its indices different from each other and below \<open>n_cmp\<close>.\<close>

definition knn_rows_ok :: "nat \<Rightarrow> nat \<Rightarrow> int \<Rightarrow> real list list \<times> nat list list \<Rightarrow> bool" where
  "knn_rows_ok n_ref n_cmp k res \<longleftrightarrow>
     (case res of (dists, idxs) \<Rightarrow>
        length dists = n_ref \<and> length idxs = n_ref
        \<and> (\<forall>row \<in> set dists. int (length row) = k \<and> sorted row)
        \<and> (\<forall>row \<in> set idxs. int (length row) = k \<and> distinct row \<and> (\<forall>j \<in> set row. j < n_cmp)))"

text \<open>The inner loop: \<open>for j, d in zip(row_idx, row_dist): if d <= max_dist: ...\<close>; an
  index behind the end of \<open>cmp_ids\<close> raises.\<close>

fun keep_near ::
  "real \<Rightarrow> 'id list \<Rightarrow> (nat \<times> real) list \<Rightarrow> py_error + ('id list \<times> real list)" where
  "keep_near max_dist cmp_ids [] = Inr ([], [])"
| "keep_near max_dist cmp_ids ((j, d) # rest) =
     (if d \<le> max_dist then
        (if j < length cmp_ids then
           (case keep_near max_dist cmp_ids rest of
              Inl e \<Rightarrow> Inl e
            | Inr (ids, dists) \<Rightarrow> Inr (cmp_ids ! j # ids, d # dists))
         else Inl IndexError)
      else keep_near max_dist cmp_ids rest)"

text \<open>The outer loop: \<open>for row_idx, row_dist in zip(idx, dist)\<close>.\<close>

fun near_rows ::
  "real \<Rightarrow> 'id list \<Rightarrow> (nat list \<times> real list) list \<Rightarrow> py_error + ('id list \<times> real list) list" where
  "near_rows max_dist cmp_ids [] = Inr []"
| "near_rows max_dist cmp_ids ((row_idx, row_dist) # rest) =
     (case keep_near max_dist cmp_ids (zip row_idx row_dist) of
        Inl e \<Rightarrow> Inl e
      | Inr r \<Rightarrow>
          (case near_rows max_dist cmp_ids rest of
             Inl e \<Rightarrow> Inl e
           | Inr rs \<Rightarrow> Inr (r # rs)))"

text \<open>\<open>search_spatial_candidates\<close> of \<open>2.match_func\<close>. The reference set is given by its
  projected points, the comparison set by its projected points and its ids, row by row
  (\<open>length cmp_ids\<close> is \<open>len(compared_gdf)\<close>); the result is the pair of new columns
  \<open>cand_ids\<close> and \<open>cand_dist_m\<close>, a row for each reference row. Assigning a column of
  another length than the frame raises \<open>ValueError\<close>.\<close>

definition search_spatial_candidates ::
  "'p kd_query \<Rightarrow> 'p list \<Rightarrow> 'p list \<Rightarrow> 'id list \<Rightarrow> int \<Rightarrow> real
     \<Rightarrow> py_error + ('id list \<times> real list) list" where
  "search_spatial_candidates query ref_xy cmp_xy cmp_ids k max_dist =
     (let k_eff = min k (int (length cmp_ids)) in
      case query cmp_xy ref_xy k_eff of
        Inl e \<Rightarrow> Inl e
      | Inr (dists, idxs) \<Rightarrow>
          (case near_rows max_dist cmp_ids (zip idxs dists) of
             Inl e \<Rightarrow> Inl e
           | Inr rows \<Rightarrow> if length rows = length ref_xy then Inr rows else Inl ValueError))"

text \<open>A nearest-neighbour query for the examples, on points of the line: all comparison
  points in the order of their distance, the first \<open>k\<close> of them.\<close>

definition line_query :: "real kd_query" where
  "line_query cmp_xy ref_xy k =
     Inr (map (\<lambda>x. map fst (take (nat k)
                  (sort_key fst (map (\<lambda>j. (\<bar>cmp_xy ! j - x\<bar>, j)) [0..<length cmp_xy]))))
            ref_xy,
          map (\<lambda>x. map snd (take (nat k)
                  (sort_key fst (map (\<lambda>j. (\<bar>cmp_xy ! j - x\<bar>, j)) [0..<length cmp_xy]))))
            ref_xy)"

section \<open>The Category Semantic Scorer\<close>

text \<open>A cell of a data frame: missing (\<open>NaN\<close>, \<open>None\<close>, \<open>pd.NA\<close>), a text or a number.
  A frame is its columns by name; the frames live in a store, and a variable of the
  program holds the address of its frame.\<close>

datatype cell = NA | Text ustring | Number real

type_synonym frame = "string \<rightharpoonup> cell list"
type_synonym store = "nat \<Rightarrow> frame"

definition isna :: "cell \<Rightarrow> bool" where
  "isna c \<longleftrightarrow> c = NA"

text \<open>\<open>astype(str)\<close>; how Python prints a number is a parameter.\<close>

definition astype_str :: "(real \<Rightarrow> ustring) \<Rightarrow> cell \<Rightarrow> ustring" where
  "astype_str num_str c = (case c of NA \<Rightarrow> ustr ''nan'' | Text s \<Rightarrow> s | Number x \<Rightarrow> num_str x)"

definition fillna_empty :: "cell \<Rightarrow> cell" where
  "fillna_empty c = (if isna c then Text [] else c)"

text \<open>\<open>df[mask]\<close> on one column.\<close>

definition select_rows :: "bool list \<Rightarrow> 'a list \<Rightarrow> 'a list" where
  "select_rows row_mask col = map snd (filter fst (zip row_mask col))"

text \<open>\<open>df.loc[mask, result_col] = scores\<close>: the rows of the mask take the scores in
  their order.\<close>

fun loc_assign :: "bool list \<Rightarrow> cell list \<Rightarrow> cell list \<Rightarrow> cell list" where
  "loc_assign (True # row_mask) (c # col) (v # vs) = v # loc_assign row_mask col vs"
| "loc_assign (False # row_mask) (c # col) vs = c # loc_assign row_mask col vs"
| "loc_assign row_mask col vs = col"

text \<open>\<open>calculate_similarity_check\<close>. The encoder and the cosine similarity of two
  encodings are a library: the parameter \<open>sim\<close> is the similarity of two texts. The
  function works on the frame it is given and returns it.\<close>

definition calculate_similarity_check ::
  "ucd \<Rightarrow> (real \<Rightarrow> ustring) \<Rightarrow> (ustring \<Rightarrow> ustring \<Rightarrow> real) \<Rightarrow> store \<Rightarrow> nat
     \<Rightarrow> string \<Rightarrow> string \<Rightarrow> string \<Rightarrow> string \<Rightarrow> py_error + (store \<times> nat)" where
  "calculate_similarity_check U num_str sim h df cat_col_ref cat_col_cmp id_col result_col =
     (case (h df id_col, h df cat_col_ref, h df cat_col_cmp) of
        (Some ids, Some refs, Some cmps) \<Rightarrow>
          let row_mask = map (\<lambda>c. \<not> isna c \<and> py_strip U (astype_str num_str c) \<noteq> []) ids;
              temp_ref = select_rows row_mask refs;
              temp_cmp = select_rows row_mask cmps;
              text_missing_mask = map2 (\<lambda>r c. isna r \<or> isna c) temp_ref temp_cmp;
              texts_1 = map (\<lambda>c. astype_str num_str (fillna_empty c)) temp_ref;
              texts_2 = map (\<lambda>c. astype_str num_str (fillna_empty c)) temp_cmp;
              scores = map2 sim texts_1 texts_2;
              scores' = map2 (\<lambda>missing s. if missing then NA else Number s)
                          text_missing_mask scores;
              column = loc_assign row_mask (replicate (length ids) NA) scores'
          in Inr (h(df := (h df)(result_col \<mapsto> column)), df)
      | _ \<Rightarrow> Inl KeyError)"

text \<open>The column of the returned frame under a name; \<open>None\<close> when the call raised or
  the frame has no such column.\<close>

definition result_column :: "py_error + (store \<times> nat) \<Rightarrow> string \<Rightarrow> cell list option" where
  "result_column r col = (case r of Inl e \<Rightarrow> None | Inr (h, df) \<Rightarrow> h df col)"

text \<open>What one row gets when its identifier is in the mask: nothing when a category is
  missing, the similarity of the two texts otherwise.\<close>

definition row_score ::
  "(real \<Rightarrow> ustring) \<Rightarrow> (ustring \<Rightarrow> ustring \<Rightarrow> real) \<Rightarrow> cell \<times> cell \<Rightarrow> cell" where
  "row_score num_str sim rc =
     (case rc of (r, c) \<Rightarrow>
        if isna r \<or> isna c then NA
        else Number (sim (astype_str num_str (fillna_empty r)) (astype_str num_str (fillna_empty c))))"

text \<open>A frame for the examples: three matched rows, the first with both categories, the
  second with an empty text as the matched category, the third without one, and a row
  without a match.\<close>

definition sample_frame :: frame where
  "sample_frame =
     [''matched_id'' \<mapsto> [Text (ustr ''a1''), Text (ustr ''a2''), Number 3, NA],
      ''primary_type'' \<mapsto> [Text (ustr ''cafe''), Text (ustr ''bar''), Text (ustr ''shop''),
                            Text (ustr ''park'')],
      ''matched_cat_main'' \<mapsto> [Text (ustr ''coffee_shop''), Text [], NA, NA]]"

definition sample_store :: store where
  "sample_store = (\<lambda>a. if a = 0 then sample_frame else Map.empty)"

definition sample_sim :: "ustring \<Rightarrow> ustring \<Rightarrow> real" where
  "sample_sim a b = (if a = b then 1 else 1 / 4)"

definition sample_num_str :: "real \<Rightarrow> ustring" where
  "sample_num_str x = ustr ''3.0''"

section \<open>Properties of the Text Normalizer\<close>

subsection \<open>Primary extraction\<close>

declare words_of.simps [simp del]

lemma words_of_space: "is_space U c \<Longrightarrow> words_of U (c # cs) = words_of U cs"
  by (simp add: words_of.simps [of U "c # cs"] words_of.simps [of U cs])

lemma words_of_Nil: "words_of U [] = []"
  by (simp add: words_of.simps)

lemma words_of_first:
  "words_of U s =
     (if takeWhile (\<lambda>x. \<not> is_space U x) s = [] then words_of U (dropWhile (\<lambda>x. \<not> is_space U x) s)
      else takeWhile (\<lambda>x. \<not> is_space U x) s # words_of U (dropWhile (\<lambda>x. \<not> is_space U x) s))"
proof (cases s)
  case Nil
  then show ?thesis by simp
next
  case (Cons c cs)
  show ?thesis
  proof (cases "is_space U c")
    case True
    with Cons show ?thesis by simp
  next
    case False
    with Cons show ?thesis by (simp add: words_of.simps [of U "c # cs"])
  qed
qed

lemma split_ws_words:
  "split_ws U cur s =
     (if cur @ takeWhile (\<lambda>x. \<not> is_space U x) s = []
      then words_of U (dropWhile (\<lambda>x. \<not> is_space U x) s)
      else (cur @ takeWhile (\<lambda>x. \<not> is_space U x) s)
             # words_of U (dropWhile (\<lambda>x. \<not> is_space U x) s))"
proof (induction s arbitrary: cur)
  case Nil
  then show ?case by (simp add: words_of_Nil)
next
  case (Cons c cs)
  show ?case
  proof (cases "is_space U c")
    case True
    have "split_ws U [] cs = words_of U cs"
      using Cons.IH [of "[]"] words_of_first [of U cs] by simp
    with True show ?thesis by (simp add: words_of_space)
  next
    case False
    then show ?thesis using Cons.IH [of "cur @ [c]"] by simp
  qed
qed

lemma py_split_words: "py_split U s = words_of U s"
  unfolding py_split_def using split_ws_words [of U "[]" s] words_of_first [of U s] by simp

lemma join_sp_joined: "join_sp ts = joined_by_spaces ts"
  by (induction ts rule: join_sp.induct) (simp_all add: joined_by_spaces_def)

text \<open>
  C8. \<open>extract_prinmary_str\<close> does what the spec says of \<open>extract_primary\<close>: the text
  is split on whitespace and the tokens of the exclusion set are removed; when exactly one
  token is left and it is shorter than 3 characters, or when no token is left, the result
  is the input as it was; otherwise it is the tokens left, joined by single spaces.
\<close>

theorem extract_primary_meets_spec:
  "extract_prinmary_str U non_primary name = extract_primary_spec U non_primary name"
proof -
  let ?core = "filter (\<lambda>t. t \<notin> non_primary) (words_of U name)"
  show ?thesis
  proof (cases ?core)
    case Nil
    then show ?thesis
      by (simp add: extract_prinmary_str_def extract_primary_spec_def py_split_words)
  next
    case (Cons t ts)
    then show ?thesis
      by (cases ts)
        (simp_all add: extract_prinmary_str_def extract_primary_spec_def py_split_words
          join_sp_joined)
  qed
qed

subsection \<open>The two normalizers\<close>






subsection \<open>Idempotence\<close>
















































section \<open>Properties of the Name Matcher\<close>

subsection \<open>The inner loop and the shortlist\<close>

lemma best_of_spec:
  "best_of F q es (bs, bp) = (s, p) \<Longrightarrow>
     (\<forall>e\<in>set es. combined F q e \<le> s) \<and> bs \<le> s
     \<and> ((s = bs \<and> p = bp)
        \<or> (\<exists>w<length es. p = Some (snd (snd (es ! w))) \<and> combined F q (es ! w) = s \<and> bs < s
              \<and> (\<forall>i<w. combined F q (es ! i) < s)))"
proof (induction es arbitrary: bs bp)
  case Nil
  then show ?case by simp
next
  case (Cons e es)
  show ?case
  proof (cases "combined F q e > bs")
    case True
    with Cons.prems have run: "best_of F q es (combined F q e, Some (snd (snd e))) = (s, p)"
      by simp
    from Cons.IH [OF run]
    have all: "\<forall>e'\<in>set es. combined F q e' \<le> s" and le: "combined F q e \<le> s"
      and alt: "(s = combined F q e \<and> p = Some (snd (snd e)))
        \<or> (\<exists>w<length es. p = Some (snd (snd (es ! w))) \<and> combined F q (es ! w) = s
              \<and> combined F q e < s \<and> (\<forall>i<w. combined F q (es ! i) < s))"
      by blast+
    from alt have "\<exists>w<length (e # es). p = Some (snd (snd ((e # es) ! w)))
        \<and> combined F q ((e # es) ! w) = s \<and> bs < s \<and> (\<forall>i<w. combined F q ((e # es) ! i) < s)"
    proof
      assume "s = combined F q e \<and> p = Some (snd (snd e))"
      with True show ?thesis by (intro exI [of _ 0]) simp
    next
      assume "\<exists>w<length es. p = Some (snd (snd (es ! w))) \<and> combined F q (es ! w) = s
              \<and> combined F q e < s \<and> (\<forall>i<w. combined F q (es ! i) < s)"
      then obtain w where w: "w < length es" "p = Some (snd (snd (es ! w)))"
        "combined F q (es ! w) = s" "combined F q e < s" "\<forall>i<w. combined F q (es ! i) < s"
        by blast
      have "\<forall>i<Suc w. combined F q ((e # es) ! i) < s"
        using w(4,5) by (auto simp: less_Suc_eq_0_disj)
      with w True show ?thesis by (intro exI [of _ "Suc w"]) auto
    qed
    with all le True show ?thesis by auto
  next
    case False
    with Cons.prems have run: "best_of F q es (bs, bp) = (s, p)"
      by simp
    from Cons.IH [OF run]
    have all: "\<forall>e'\<in>set es. combined F q e' \<le> s" and le: "bs \<le> s"
      and alt: "(s = bs \<and> p = bp)
        \<or> (\<exists>w<length es. p = Some (snd (snd (es ! w))) \<and> combined F q (es ! w) = s
              \<and> bs < s \<and> (\<forall>i<w. combined F q (es ! i) < s))"
      by blast+
    from alt have "(s = bs \<and> p = bp) \<or> (\<exists>w<length (e # es). p = Some (snd (snd ((e # es) ! w)))
        \<and> combined F q ((e # es) ! w) = s \<and> bs < s \<and> (\<forall>i<w. combined F q ((e # es) ! i) < s))"
    proof
      assume "s = bs \<and> p = bp"
      then show ?thesis by simp
    next
      assume "\<exists>w<length es. p = Some (snd (snd (es ! w))) \<and> combined F q (es ! w) = s
              \<and> bs < s \<and> (\<forall>i<w. combined F q (es ! i) < s)"
      then obtain w where w: "w < length es" "p = Some (snd (snd (es ! w)))"
        "combined F q (es ! w) = s" "bs < s" "\<forall>i<w. combined F q (es ! i) < s"
        by blast
      have "\<forall>i<Suc w. combined F q ((e # es) ! i) < s"
        using w(4,5) False by (auto simp: less_Suc_eq_0_disj)
      with w have "\<exists>w<length (e # es). p = Some (snd (snd ((e # es) ! w)))
        \<and> combined F q ((e # es) ! w) = s \<and> bs < s \<and> (\<forall>i<w. combined F q ((e # es) ! i) < s)"
        by (intro exI [of _ "Suc w"]) auto
      then show ?thesis by blast
    qed
    with all le False show ?thesis by auto
  qed
qed

lemma process_extract_entry:
  assumes "e \<in> set (process_extract F q names k)"
  shows "\<exists>p<length names. e = (names ! p, WRatio F q (names ! p), p)"
proof -
  from assms have "e \<in> set (map (\<lambda>(pos, name). (name, WRatio F q name, pos)) (enumerate 0 names))"
    unfolding process_extract_def using set_take_subset by fastforce
  then obtain pos name where "(pos, name) \<in> set (enumerate 0 names)"
    and e: "e = (name, WRatio F q name, pos)"
    by auto
  then have "pos < length names" "names ! pos = name"
    by (simp_all add: in_set_enumerate_eq)
  with e show ?thesis by blast
qed

lemma process_extract_nonempty:
  assumes "names \<noteq> []" "0 < k"
  shows "process_extract F q names k \<noteq> []"
proof -
  have "length (sort_key (\<lambda>(name, wr, pos). - wr)
          (map (\<lambda>(pos, name). (name, WRatio F q name, pos)) (enumerate 0 names))) = length names"
    by simp
  with assms have "length (process_extract F q names k) \<noteq> 0"
    unfolding process_extract_def by (simp del: length_sort)
  then show ?thesis by fastforce
qed


lemma combined_entry: "combined F q (n, WRatio F q n, p) = combined_score F q n"
  by (simp add: combined_def combined_score_def)

lemma combined_score_nonneg: "fuzz_in_range F \<Longrightarrow> 0 \<le> combined_score F q n"
  by (simp add: fuzz_in_range_def combined_score_def combined_def le_max_iff_disj)

lemma length_cand_names [simp]: "length (cand_names U np compared row) = length (cand_ids row)"
  by (simp add: cand_names_def)

text \<open>What the body of the loop does on a row with candidates, given scores that are not
  negative and as many distances as ids: the state of the inner loop ends at an entry \<open>w\<close>
  of the shortlist that no entry beats and no earlier entry equals.\<close>

lemma match_row_core:
  assumes range: "fuzz_in_range F" and cands: "cand_ids row \<noteq> []"
    and dists: "length (cand_dist_m row) = length (cand_ids row)"
  shows "\<exists>w p. w < length (process_extract F (row_query U np row) (cand_names U np compared row) 5)
      \<and> p < length (cand_ids row)
      \<and> process_extract F (row_query U np row) (cand_names U np compared row) 5 ! w
          = (cand_names U np compared row ! p,
             WRatio F (row_query U np row) (cand_names U np compared row ! p), p)
      \<and> best_of F (row_query U np row)
            (process_extract F (row_query U np row) (cand_names U np compared row) 5) (- 1, None)
          = (combined_score F (row_query U np row) (cand_names U np compared row ! p), Some p)
      \<and> (\<forall>i<length (process_extract F (row_query U np row) (cand_names U np compared row) 5).
            combined F (row_query U np row)
              (process_extract F (row_query U np row) (cand_names U np compared row) 5 ! i)
            \<le> combined_score F (row_query U np row) (cand_names U np compared row ! p))
      \<and> (\<forall>i<w.
            combined F (row_query U np row)
              (process_extract F (row_query U np row) (cand_names U np compared row) 5 ! i)
            < combined_score F (row_query U np row) (cand_names U np compared row ! p))
      \<and> match_row U np F compared threshold row
          = (if threshold \<le> combined_score F (row_query U np row) (cand_names U np compared row ! p)
             then Inr \<lparr>matched_id = Some (cand_ids row ! p),
                       name_score =
                         Some (combined_score F (row_query U np row) (cand_names U np compared row ! p)),
                       location_distance = Some (cand_dist_m row ! p),
                       matched_name = dict_get (id_to_name_raw compared) (cand_ids row ! p),
                       matched_cat_main = dict_get (id_to_cat compared) (cand_ids row ! p)\<rparr>
             else Inr (unmatched
                        (Some (combined_score F (row_query U np row)
                                 (cand_names U np compared row ! p)))))"
proof -
  let ?q = "row_query U np row"
  let ?names = "cand_names U np compared row"
  let ?top = "process_extract F ?q ?names 5"
  obtain s bp where run: "best_of F ?q ?top (- 1, None) = (s, bp)"
    by (cases "best_of F ?q ?top (- 1, None)")
  have names: "?names \<noteq> []" using cands by (simp add: cand_names_def)
  then have top: "?top \<noteq> []" by (simp add: process_extract_nonempty)
  then obtain e0 where e0: "e0 \<in> set ?top" by (cases ?top) auto
  from process_extract_entry [OF e0] obtain p0 where
    "e0 = (?names ! p0, WRatio F ?q (?names ! p0), p0)" by blast
  then have "0 \<le> combined F ?q e0"
    using combined_score_nonneg [OF range] by (simp add: combined_entry)
  moreover from best_of_spec [OF run] e0 have "combined F ?q e0 \<le> s" by blast
  ultimately have "s \<noteq> - 1" by linarith
  with best_of_spec [OF run] obtain w where w: "w < length ?top"
    "bp = Some (snd (snd (?top ! w)))" "combined F ?q (?top ! w) = s"
    "\<forall>i<w. combined F ?q (?top ! i) < s" and all: "\<forall>e\<in>set ?top. combined F ?q e \<le> s"
    by blast
  from process_extract_entry [of "?top ! w" F ?q ?names 5] w(1) obtain p where
    p: "p < length ?names" "?top ! w = (?names ! p, WRatio F ?q (?names ! p), p)"
    by auto
  have s: "s = combined_score F ?q (?names ! p)"
    using w(3) p(2) by (simp add: combined_entry)
  have bp: "bp = Some p" using w(2) p(2) by simp
  have plen: "p < length (cand_ids row)" using p(1) by simp
  have "match_row U np F compared threshold row
      = (if threshold \<le> s
         then Inr \<lparr>matched_id = Some (cand_ids row ! p), name_score = Some s,
                   location_distance = Some (cand_dist_m row ! p),
                   matched_name = dict_get (id_to_name_raw compared) (cand_ids row ! p),
                   matched_cat_main = dict_get (id_to_cat compared) (cand_ids row ! p)\<rparr>
         else Inr (unmatched (Some s)))"
    using cands run bp plen dists by (simp add: match_row_def Let_def)
  moreover have "\<forall>i<length ?top. combined F ?q (?top ! i) \<le> s"
    using all by simp
  moreover have "best_of F ?q ?top (- 1, None) = (s, Some p)"
    using run bp by simp
  ultimately show ?thesis
    using w(1,4) p(2) plen unfolding s by blast
qed


lemma match_row_no_candidates:
  "cand_ids row = [] \<Longrightarrow> match_row U np F compared threshold row = Inr (unmatched None)"
  by (simp add: match_row_def)

lemma match_rows_nth:
  "match_rows U np F compared threshold rows = Inr ms \<Longrightarrow>
     length ms = length rows
     \<and> (\<forall>i<length rows. match_row U np F compared threshold (rows ! i) = Inr (ms ! i))"
proof (induction rows arbitrary: ms)
  case Nil
  then show ?case by simp
next
  case (Cons row rows)
  from Cons.prems obtain m ms' where m: "match_row U np F compared threshold row = Inr m"
    and ms': "match_rows U np F compared threshold rows = Inr ms'" and ms: "ms = m # ms'"
    by (auto split: sum.splits)
  from Cons.IH [OF ms'] m ms show ?case
    by (auto simp: less_Suc_eq_0_disj)
qed

lemma fuzz_sample_in_range: "fuzz_in_range fuzz_sample"
  by (simp add: fuzz_in_range_def fuzz_sample_def sample_scores_def)

subsection \<open>The winner of a row\<close>




subsection \<open>Rows without a usable name\<close>

text \<open>A row without a name has the empty string as its query, and with candidates it is
  scored like any other row, for every scorer.\<close>

lemma row_query_no_name: "ref_name row = None \<Longrightarrow> row_query U np row = []"
  by (simp add: row_query_def clean_name_def extract_prinmary_str_def py_split_def)

lemma no_name_row_gets_score:
  assumes "fuzz_in_range F" and "cand_ids row \<noteq> []"
    and "length (cand_dist_m row) = length (cand_ids row)" and "ref_name row = None"
  shows "\<exists>m s. match_row U np F compared threshold row = Inr m \<and> name_score m = Some s"
proof -
  from match_row_core [OF assms(1-3), of U np compared threshold]
  obtain p where "match_row U np F compared threshold row
          = (if threshold \<le> combined_score F (row_query U np row) (cand_names U np compared row ! p)
             then Inr \<lparr>matched_id = Some (cand_ids row ! p),
                       name_score =
                         Some (combined_score F (row_query U np row) (cand_names U np compared row ! p)),
                       location_distance = Some (cand_dist_m row ! p),
                       matched_name = dict_get (id_to_name_raw compared) (cand_ids row ! p),
                       matched_cat_main = dict_get (id_to_cat compared) (cand_ids row ! p)\<rparr>
             else Inr (unmatched
                        (Some (combined_score F (row_query U np row)
                                 (cand_names U np compared row ! p)))))"
    by blast
  then show ?thesis
    by (cases "threshold \<le> combined_score F (row_query U np row) (cand_names U np compared row ! p)")
      (simp_all add: unmatched_def)
qed

text \<open>
  C2 at a row without a name and with one candidate: the query is the empty string, the
  candidate is scored against it, and the row gets the score 0, not a missing one.
\<close>

theorem null_name_row_is_scored:
  "match_row ucd_sample {} fuzz_sample sample_pois 80
     \<lparr>ref_name = None, cand_ids = [2], cand_dist_m = [20]\<rparr>
   = Inr \<lparr>matched_id = None, name_score = Some 0, location_distance = None,
           matched_name = None, matched_cat_main = None\<rparr>
   \<and> row_query ucd_sample {} \<lparr>ref_name = None, cand_ids = [2::nat], cand_dist_m = [20]\<rparr> = []"
  by code_simp

subsection \<open>The threshold\<close>

text \<open>
  C3. For scores that are not negative and as many distances as ids, the matcher returns
  a row whose matched identifier is there if and only if its score is there and at least
  the threshold and the candidate list is not empty; and whenever there are candidates
  the score recorded is the best score the loop computed, below the threshold or not.
\<close>

theorem matched_iff_score_reaches_threshold:
  assumes "fuzz_in_range F" and "length (cand_dist_m row) = length (cand_ids row)"
  shows "\<exists>m. match_row U np F compared threshold row = Inr m
      \<and> (matched_id m \<noteq> None
           \<longleftrightarrow> (\<exists>s. name_score m = Some s \<and> threshold \<le> s) \<and> cand_ids row \<noteq> [])
      \<and> (cand_ids row \<noteq> []
           \<longrightarrow> name_score m
                 = Some (fst (best_of F (row_query U np row) (shortlist U np F compared row)
                                (- 1, None))))"
proof (cases "cand_ids row = []")
  case True
  then show ?thesis
    by (simp add: match_row_no_candidates unmatched_def)
next
  case False
  let ?q = "row_query U np row"
  let ?names = "cand_names U np compared row"
  from match_row_core [OF assms(1) False assms(2), of U np compared threshold]
  obtain p where
    run: "best_of F ?q (shortlist U np F compared row) (- 1, None)
            = (combined_score F ?q (?names ! p), Some p)"
    and row: "match_row U np F compared threshold row
          = (if threshold \<le> combined_score F ?q (?names ! p)
             then Inr \<lparr>matched_id = Some (cand_ids row ! p),
                       name_score = Some (combined_score F ?q (?names ! p)),
                       location_distance = Some (cand_dist_m row ! p),
                       matched_name = dict_get (id_to_name_raw compared) (cand_ids row ! p),
                       matched_cat_main = dict_get (id_to_cat compared) (cand_ids row ! p)\<rparr>
             else Inr (unmatched (Some (combined_score F ?q (?names ! p)))))"
    unfolding shortlist_def by blast
  show ?thesis
    using row run False
    by (cases "threshold \<le> combined_score F ?q (?names ! p)") (simp_all add: unmatched_def)
qed

theorem matched_iff_score_reaches_threshold_witness:
  "length (cand_dist_m sample_row) = length (cand_ids sample_row)
   \<and> (\<exists>m. match_row ucd_sample {} fuzz_sample sample_pois 80 sample_row = Inr m
        \<and> (matched_id m \<noteq> None)
           = ((\<exists>s. name_score m = Some s \<and> 80 \<le> s) \<and> cand_ids sample_row \<noteq> []))
   \<and> (\<exists>m. match_row ucd_sample {} fuzz_sample sample_pois 97 sample_row = Inr m
        \<and> matched_id m = None \<and> name_score m \<noteq> None)"
proof -
  have b: "length (cand_dist_m sample_row) = length (cand_ids sample_row)"
    by (simp add: sample_row_def)
  have a: "cand_ids sample_row \<noteq> []"
    by (simp add: sample_row_def)
  from matched_iff_score_reaches_threshold [OF fuzz_sample_in_range b,
      where U = ucd_sample and np = "{}" and compared = sample_pois and threshold = 80]
  have one: "\<exists>m. match_row ucd_sample {} fuzz_sample sample_pois 80 sample_row = Inr m
        \<and> (matched_id m \<noteq> None)
           = ((\<exists>s. name_score m = Some s \<and> 80 \<le> s) \<and> cand_ids sample_row \<noteq> [])"
    by blast
  from matched_iff_score_reaches_threshold [OF fuzz_sample_in_range b,
      where U = ucd_sample and np = "{}" and compared = sample_pois and threshold = 97]
  obtain m where m: "match_row ucd_sample {} fuzz_sample sample_pois 97 sample_row = Inr m"
    and iff: "(matched_id m \<noteq> None)
           = ((\<exists>s. name_score m = Some s \<and> 97 \<le> s) \<and> cand_ids sample_row \<noteq> [])"
    and rec: "name_score m
                 = Some (fst (best_of fuzz_sample (row_query ucd_sample {} sample_row)
                     (shortlist ucd_sample {} fuzz_sample sample_pois sample_row) (- 1, None)))"
    using a by blast
  have "fst (best_of fuzz_sample (row_query ucd_sample {} sample_row)
                     (shortlist ucd_sample {} fuzz_sample sample_pois sample_row) (- 1, None))
        = 3000 / 31"
    by code_simp
  with rec iff have "matched_id m = None" "name_score m \<noteq> None"
    by auto
  with m have two: "\<exists>m. match_row ucd_sample {} fuzz_sample sample_pois 97 sample_row = Inr m
        \<and> matched_id m = None \<and> name_score m \<noteq> None"
    by blast
  from b one two show ?thesis by (intro conjI)
qed

section \<open>Properties of the Spatial Candidate Finder\<close>

lemma keep_near_spec:
  "\<forall>(j, d)\<in>set ps. j < length cmp_ids \<Longrightarrow>
     keep_near max_dist cmp_ids ps
       = Inr (map (\<lambda>(j, d). cmp_ids ! j) (filter (\<lambda>(j, d). d \<le> max_dist) ps),
              map snd (filter (\<lambda>(j, d). d \<le> max_dist) ps))"
  by (induction max_dist cmp_ids ps rule: keep_near.induct) auto

lemma filter_snd_zip:
  "length js = length ds \<Longrightarrow>
     map snd (filter (\<lambda>(j, d). P d) (zip js ds)) = filter P ds"
  by (induction js ds rule: list_induct2) auto

lemma near_rows_spec:
  "\<forall>(row_idx, row_dist)\<in>set rs. \<forall>j\<in>set row_idx. j < length cmp_ids \<Longrightarrow>
     near_rows max_dist cmp_ids rs
       = Inr (map (\<lambda>(row_idx, row_dist).
                 (map (\<lambda>(j, d). cmp_ids ! j)
                    (filter (\<lambda>(j, d). d \<le> max_dist) (zip row_idx row_dist)),
                  map snd (filter (\<lambda>(j, d). d \<le> max_dist) (zip row_idx row_dist)))) rs)"
proof (induction rs)
  case Nil
  then show ?case by simp
next
  case (Cons r rs)
  obtain row_idx row_dist where r: "r = (row_idx, row_dist)" by (cases r)
  have "\<forall>(j, d)\<in>set (zip row_idx row_dist). j < length cmp_ids"
    using Cons.prems r by (auto dest: set_zip_leftD)
  from keep_near_spec [OF this, of max_dist] Cons show ?case
    by (simp add: r)
qed

lemma kept_ids_distinct:
  assumes "distinct cmp_ids" "distinct js" "\<forall>j\<in>set js. j < length cmp_ids"
    and "length js = length ds"
  shows "distinct (map (\<lambda>(j, d). cmp_ids ! j) (filter (\<lambda>(j, d). d \<le> max_dist) (zip js ds)))"
proof -
  let ?kept = "filter (\<lambda>(j, d). d \<le> max_dist) (zip js ds)"
  have "distinct (map fst (zip js ds))"
    using assms(2,4) by simp
  then have d: "distinct (map fst ?kept)"
    by (rule distinct_map_filter)
  have "set (map fst ?kept) \<subseteq> set js"
    by (auto dest: set_zip_leftD)
  then have inj: "inj_on (nth cmp_ids) (set (map fst ?kept))"
    using assms(1,3) by (intro inj_on_nth) auto
  have A: "distinct (map (nth cmp_ids) (map fst ?kept))"
    by (rule distinct_map [THEN iffD2, OF conjI [OF d inj]])
  have B: "map (nth cmp_ids) (map fst ?kept) = map (\<lambda>(j, d). cmp_ids ! j) ?kept"
    by (simp add: case_prod_beta comp_def)
  from A show ?thesis unfolding B .
qed

text \<open>
  C4. When the library call returns what it promises (a row of \<open>k_eff\<close> distances in
  ascending order and a row of \<open>k_eff\<close> different indices for every reference point) and
  the ids of the comparison set are unique, the search returns; every stored candidate list
  has as many ids as distances and at most \<open>k\<close> of them, its distances are in
  non-decreasing order and at most \<open>max_dist\<close>, its ids are different from each other,
  and its distances are exactly those of the library's row that are at most \<open>max_dist\<close>,
  so a neighbour at exactly \<open>max_dist\<close> is kept.
\<close>

theorem candidate_lists_within_bounds:
  assumes lib: "query cmp_xy ref_xy (min k (int (length cmp_ids))) = Inr (dists, idxs)"
    and ok: "knn_rows_ok (length ref_xy) (length cmp_ids) (min k (int (length cmp_ids)))
               (dists, idxs)"
    and ids: "distinct cmp_ids"
  shows "\<exists>rows. search_spatial_candidates query ref_xy cmp_xy cmp_ids k max_dist = Inr rows
      \<and> length rows = length ref_xy
      \<and> (\<forall>i<length rows.
            length (fst (rows ! i)) = length (snd (rows ! i))
            \<and> int (length (fst (rows ! i))) \<le> k
            \<and> sorted (snd (rows ! i))
            \<and> (\<forall>d\<in>set (snd (rows ! i)). d \<le> max_dist)
            \<and> distinct (fst (rows ! i))
            \<and> snd (rows ! i) = filter (\<lambda>d. d \<le> max_dist) (dists ! i))"
proof -
  let ?k = "min k (int (length cmp_ids))"
  let ?f = "\<lambda>(row_idx, row_dist).
      (map (\<lambda>(j, d). cmp_ids ! j) (filter (\<lambda>(j, d). d \<le> max_dist) (zip row_idx row_dist)),
       map snd (filter (\<lambda>(j, d). d \<le> max_dist) (zip row_idx row_dist)))"
  let ?rows = "map ?f (zip idxs dists)"
  from ok have len: "length dists = length ref_xy" "length idxs = length ref_xy"
    and drow: "\<And>row. row \<in> set dists \<Longrightarrow> int (length row) = ?k \<and> sorted row"
    and irow: "\<And>row. row \<in> set idxs \<Longrightarrow>
        int (length row) = ?k \<and> distinct row \<and> (\<forall>j\<in>set row. j < length cmp_ids)"
    by (auto simp: knn_rows_ok_def)
  have "\<forall>(row_idx, row_dist)\<in>set (zip idxs dists). \<forall>j\<in>set row_idx. j < length cmp_ids"
    using irow by (auto dest: set_zip_leftD)
  from near_rows_spec [OF this, of max_dist]
  have near: "near_rows max_dist cmp_ids (zip idxs dists) = Inr ?rows" .
  have rlen: "length ?rows = length ref_xy"
    using len by simp
  have res: "search_spatial_candidates query ref_xy cmp_xy cmp_ids k max_dist = Inr ?rows"
    using lib near rlen by (simp add: search_spatial_candidates_def Let_def)
  have row: "length (fst (?rows ! i)) = length (snd (?rows ! i))
            \<and> int (length (fst (?rows ! i))) \<le> k
            \<and> sorted (snd (?rows ! i))
            \<and> (\<forall>d\<in>set (snd (?rows ! i)). d \<le> max_dist)
            \<and> distinct (fst (?rows ! i))
            \<and> snd (?rows ! i) = filter (\<lambda>d. d \<le> max_dist) (dists ! i)"
    if "i < length ?rows" for i
  proof -
    from that len have i: "i < length idxs" "i < length dists" by simp_all
    let ?js = "idxs ! i" and ?ds = "dists ! i"
    have ri: "?rows ! i = ?f (?js, ?ds)"
      using i by simp
    from drow [of ?ds] i have d: "int (length ?ds) = ?k" "sorted ?ds" by simp_all
    from irow [of ?js] i have j: "int (length ?js) = ?k" "distinct ?js"
      "\<forall>j\<in>set ?js. j < length cmp_ids" by simp_all
    from d(1) j(1) have eq: "length ?js = length ?ds" by simp
    have snd_eq: "snd (?rows ! i) = filter (\<lambda>d. d \<le> max_dist) ?ds"
      using filter_snd_zip [OF eq, of "\<lambda>d. d \<le> max_dist"] by (simp add: ri)
    have "length (filter (\<lambda>(j, d). d \<le> max_dist) (zip ?js ?ds)) \<le> length ?ds"
      using length_filter_le [of _ "zip ?js ?ds"] eq by simp
    then have "int (length (fst (?rows ! i))) \<le> k"
      using d(1) by (simp add: ri)
    moreover have "sorted (snd (?rows ! i))"
      unfolding snd_eq using d(2) by (rule sorted_wrt_filter)
    moreover have "distinct (fst (?rows ! i))"
      using kept_ids_distinct [OF ids j(2,3) eq, of max_dist] by (simp add: ri)
    moreover have "length (fst (?rows ! i)) = length (snd (?rows ! i))"
      by (simp add: ri)
    moreover have "\<forall>d\<in>set (snd (?rows ! i)). d \<le> max_dist"
      unfolding snd_eq by simp
    ultimately show ?thesis using snd_eq by blast
  qed
  from res rlen row show ?thesis by blast
qed

theorem candidate_lists_within_bounds_witness:
  "search_spatial_candidates line_query [0, 100] [1000, - 3, 5, 2000, 7] [10, 11, 12, 13, 14 :: nat]
      4 1000
     = Inr [([11, 12, 14, 10], [3, 5, 7, 1000]), ([14, 12, 11, 10], [93, 95, 103, 900])]
   \<and> distinct [10, 11, 12, 13, 14 :: nat]
   \<and> (\<exists>rows.
        search_spatial_candidates line_query [0, 100] [1000, - 3, 5, 2000, 7]
          [10, 11, 12, 13, 14 :: nat] 4 1000 = Inr rows
        \<and> length rows = length [0, 100 :: real]
        \<and> (\<forall>i<length rows.
              length (fst (rows ! i)) = length (snd (rows ! i))
              \<and> int (length (fst (rows ! i))) \<le> 4
              \<and> sorted (snd (rows ! i))
              \<and> (\<forall>d\<in>set (snd (rows ! i)). d \<le> 1000)
              \<and> distinct (fst (rows ! i))
              \<and> snd (rows ! i)
                  = filter (\<lambda>d. d \<le> 1000) ([[3, 5, 7, 1000], [93, 95, 103, 900]] ! i)))"
proof -
  have lib: "line_query [1000, - 3, 5, 2000, 7] [0, 100]
               (min 4 (int (length [10, 11, 12, 13, 14 :: nat])))
             = Inr ([[3, 5, 7, 1000], [93, 95, 103, 900]], [[1, 2, 4, 0], [4, 2, 1, 0]])"
    by code_simp
  have ok: "knn_rows_ok (length [0, 100 :: real]) (length [10, 11, 12, 13, 14 :: nat])
              (min 4 (int (length [10, 11, 12, 13, 14 :: nat])))
              ([[3, 5, 7, 1000], [93, 95, 103, 900]], [[1, 2, 4, 0], [4, 2, 1, 0]])"
    by (simp add: knn_rows_ok_def)
  have ids: "distinct [10, 11, 12, 13, 14 :: nat]"
    by simp
  have val: "search_spatial_candidates line_query [0, 100] [1000, - 3, 5, 2000, 7]
      [10, 11, 12, 13, 14 :: nat] 4 1000
     = Inr [([11, 12, 14, 10], [3, 5, 7, 1000]), ([14, 12, 11, 10], [93, 95, 103, 900])]"
    by code_simp
  note inst = candidate_lists_within_bounds [where query = line_query
      and cmp_xy = "[1000, - 3, 5, 2000, 7]" and ref_xy = "[0, 100]" and k = 4
      and cmp_ids = "[10, 11, 12, 13, 14 :: nat]"
      and dists = "[[3, 5, 7, 1000], [93, 95, 103, 900]]"
      and idxs = "[[1, 2, 4, 0], [4, 2, 1, 0]]" and max_dist = 1000]
  from val ids inst [OF lib ok ids]
  show ?thesis by (intro conjI)
qed

subsection \<open>The empty comparison set\<close>

text \<open>With no comparison record \<open>k_eff\<close> is \<open>min(k, 0)\<close> and the source passes it to the
  library as it is: what the search does is what the library does with it. An error of
  the library is the error of the search; rows without entries give empty candidate
  lists.\<close>

lemma search_empty_comparison_raises:
  "query [] ref_xy (min k 0) = Inl e
     \<Longrightarrow> search_spatial_candidates query ref_xy [] [] k max_dist = Inl e"
  by (simp add: search_spatial_candidates_def)

lemma near_rows_empty:
  "near_rows max_dist cmp_ids (replicate n ([], [])) = Inr (replicate n ([], []))"
  by (induction n) simp_all

lemma search_empty_comparison_returns:
  assumes "query [] ref_xy (min k 0) = Inr (replicate (length ref_xy) [], replicate (length ref_xy) [])"
  shows "search_spatial_candidates query ref_xy [] [] k max_dist
           = Inr (replicate (length ref_xy) ([], []))"
proof -
  have "zip (replicate (length ref_xy) ([] :: nat list)) (replicate (length ref_xy) ([] :: real list))
          = replicate (length ref_xy) ([], [])"
    by (simp add: zip_replicate)
  with assms show ?thesis
    by (simp add: search_spatial_candidates_def near_rows_empty)
qed

section \<open>Properties of the Category Semantic Scorer\<close>

lemma select_rows_Cons:
  "select_rows (m # ms) (x # xs) = (if m then x # select_rows ms xs else select_rows ms xs)"
  by (simp add: select_rows_def)

lemma select_rows_Nil: "select_rows [] xs = []" "select_rows ms [] = []"
  by (simp_all add: select_rows_def)

lemma select_rows_zip:
  "length xs = length ms \<Longrightarrow> length ys = length ms
     \<Longrightarrow> zip (select_rows ms xs) (select_rows ms ys) = select_rows ms (zip xs ys)"
proof (induction ms arbitrary: xs ys)
  case Nil
  then show ?case by (simp add: select_rows_Nil)
next
  case (Cons m ms)
  then obtain x xs' y ys' where "xs = x # xs'" "ys = y # ys'"
    by (metis length_Suc_conv)
  with Cons show ?case by (simp add: select_rows_Cons)
qed

lemma scores_by_row:
  "map2 (\<lambda>missing s. if missing then NA else Number s)
       (map2 (\<lambda>r c. isna r \<or> isna c) rs cs)
       (map2 sim (map (\<lambda>c. astype_str num_str (fillna_empty c)) rs)
                 (map (\<lambda>c. astype_str num_str (fillna_empty c)) cs))
     = map (row_score num_str sim) (zip rs cs)"
proof (induction rs arbitrary: cs)
  case Nil
  then show ?case by simp
next
  case (Cons r rs)
  then show ?case by (cases cs) (simp_all add: row_score_def)
qed

lemma loc_assign_nth:
  "length col = length ms \<Longrightarrow> length rows = length ms \<Longrightarrow> i < length ms
     \<Longrightarrow> loc_assign ms col (map f (select_rows ms rows)) ! i
         = (if ms ! i then f (rows ! i) else col ! i)"
proof (induction ms arbitrary: col rows i)
  case Nil
  then show ?case by simp
next
  case (Cons m ms)
  then obtain c col' r rows' where eq: "col = c # col'" "rows = r # rows'"
    by (metis length_Suc_conv)
  show ?case
  proof (cases i)
    case 0
    with eq show ?thesis by (cases m) (simp_all add: select_rows_Cons)
  next
    case (Suc j)
    with Cons eq show ?thesis by (cases m) (simp_all add: select_rows_Cons)
  qed
qed

lemma loc_assign_length:
  "length col = length ms \<Longrightarrow> length (loc_assign ms col vs) = length col"
proof (induction ms col vs rule: loc_assign.induct)
qed simp_all

lemma similarity_column:
  assumes "h df id_col = Some ids" "h df cat_col_ref = Some refs" "h df cat_col_cmp = Some cmps"
    and "length refs = length ids" "length cmps = length ids"
  shows "result_column
           (calculate_similarity_check U num_str sim h df cat_col_ref cat_col_cmp id_col result_col)
           result_col
         = Some (loc_assign
                  (map (\<lambda>c. \<not> isna c \<and> py_strip U (astype_str num_str c) \<noteq> []) ids)
                  (replicate (length ids) NA)
                  (map (row_score num_str sim)
                     (select_rows
                        (map (\<lambda>c. \<not> isna c \<and> py_strip U (astype_str num_str c) \<noteq> []) ids)
                        (zip refs cmps))))"
  using assms
  by (simp add: calculate_similarity_check_def result_column_def Let_def scores_by_row
      select_rows_zip)

text \<open>
  C9, amended. A row gets no category score whenever one of its two category texts was
  missing (null) in the frame as it was given, whatever text stood in for it in the
  encoding; so a matched row whose matched category is missing gets no score. The row is
  row \<open>i\<close> of a frame whose three columns have one length.
\<close>

theorem missing_category_gives_null_score:
  assumes "h df id_col = Some ids" "h df cat_col_ref = Some refs" "h df cat_col_cmp = Some cmps"
    and "length refs = length ids" "length cmps = length ids"
    and "i < length ids" and "refs ! i = NA \<or> cmps ! i = NA"
  shows "\<exists>col. result_column
           (calculate_similarity_check U num_str sim h df cat_col_ref cat_col_cmp id_col result_col)
           result_col = Some col
         \<and> length col = length ids \<and> col ! i = NA"
proof -
  let ?ms = "map (\<lambda>c. \<not> isna c \<and> py_strip U (astype_str num_str c) \<noteq> []) ids"
  let ?col = "loc_assign ?ms (replicate (length ids) NA)
                (map (row_score num_str sim) (select_rows ?ms (zip refs cmps)))"
  have len: "length ?col = length ids"
    by (simp add: loc_assign_length)
  have "?col ! i = (if ?ms ! i then row_score num_str sim (zip refs cmps ! i)
                    else replicate (length ids) NA ! i)"
    using assms(4-6) by (intro loc_assign_nth) simp_all
  moreover have "row_score num_str sim (zip refs cmps ! i) = NA"
    using assms(4-7) by (auto simp: row_score_def isna_def)
  ultimately have "?col ! i = NA"
    using assms(6) by simp
  with len
    similarity_column [of h df id_col ids cat_col_ref refs cat_col_cmp cmps U num_str sim
      result_col] assms(1-5)
  show ?thesis by blast
qed

theorem missing_category_gives_null_score_witness:
  "\<exists>col. result_column
      (calculate_similarity_check ucd_sample sample_num_str sample_sim sample_store 0
         ''primary_type'' ''matched_cat_main'' ''matched_id'' ''category_sim'')
      ''category_sim'' = Some col
    \<and> length col = 4 \<and> col ! 2 = NA"
  using missing_category_gives_null_score [of sample_store 0 "''matched_id''"
      "[Text (ustr ''a1''), Text (ustr ''a2''), Number 3, NA]" "''primary_type''"
      "[Text (ustr ''cafe''), Text (ustr ''bar''), Text (ustr ''shop''), Text (ustr ''park'')]"
      "''matched_cat_main''" "[Text (ustr ''coffee_shop''), Text [], NA, NA]" 2
      ucd_sample sample_num_str sample_sim "''category_sim''"]
  by (simp add: sample_store_def sample_frame_def eval_nat_numeral)

text \<open>
  C9, as the spec states it, fails for a text that is there and empty: only a missing
  value counts as missing. The second row of the example has an identifier and the empty
  text as its matched category, and gets a score.
\<close>

theorem empty_category_scored_counterexample:
  "result_column
     (calculate_similarity_check ucd_sample sample_num_str sample_sim sample_store 0
        ''primary_type'' ''matched_cat_main'' ''matched_id'' ''category_sim'')
     ''category_sim''
   = Some [Number (1 / 4), Number (1 / 4), NA, NA]
   \<and> sample_store 0 ''matched_id'' = Some [Text (ustr ''a1''), Text (ustr ''a2''), Number 3, NA]
   \<and> sample_store 0 ''matched_cat_main'' = Some [Text (ustr ''coffee_shop''), Text [], NA, NA]"
  by (simp add: calculate_similarity_check_def result_column_def sample_store_def
      sample_frame_def Let_def select_rows_def isna_def astype_str_def fillna_empty_def
      py_strip_def ustr_def is_space_def is_ascii_def sample_sim_def sample_num_str_def)

text \<open>
  C10 at the Category Semantic Scorer: the frame it returns is the frame it was given (the
  same address), and after the call the caller's frame has the new column, which it did
  not have before.
\<close>

theorem category_scorer_writes_into_callers_frame:
  "(case calculate_similarity_check ucd_sample sample_num_str sample_sim sample_store 0
           ''primary_type'' ''matched_cat_main'' ''matched_id'' ''category_sim'' of
      Inl e \<Rightarrow> False
    | Inr (h, df) \<Rightarrow>
        df = 0 \<and> sample_store 0 ''category_sim'' = None
        \<and> h 0 ''category_sim'' = Some [Number (1 / 4), Number (1 / 4), NA, NA])"
  by (simp add: calculate_similarity_check_def sample_store_def
      sample_frame_def Let_def select_rows_def isna_def astype_str_def fillna_empty_def
      py_strip_def ustr_def is_space_def is_ascii_def sample_sim_def sample_num_str_def)

end
